theory Spec2Isabelle
  imports Main
begin

section \<open>Python string primitives used by the storage adapter\<close>

text \<open>
  Python \<open>str\<close> values are modelled as \<open>string\<close>. The adapter only inspects the ASCII
  characters \<open>/\<close>, \<open>.\<close> and the letters of the format names, so the 8-bit characters
  of HOL are enough for every branch it takes.
\<close>

text \<open>\<open>s.startswith(prefix)\<close>\<close>

fun startswith :: "string \<Rightarrow> string \<Rightarrow> bool" where
  "startswith s [] = True"
| "startswith [] (p # ps) = False"
| "startswith (x # xs) (p # ps) = (x = p \<and> startswith xs ps)"

text \<open>\<open>sub in s\<close> for strings: \<open>sub\<close> occurs as a contiguous slice of \<open>s\<close>.\<close>

fun str_contains :: "string \<Rightarrow> string \<Rightarrow> bool" where
  "str_contains [] sub = (sub = [])"
| "str_contains (x # xs) sub = (startswith (x # xs) sub \<or> str_contains xs sub)"

text \<open>\<open>s.split(sep)\<close> for a one-character separator; never returns the empty list.\<close>

fun split :: "char \<Rightarrow> string \<Rightarrow> string list" where
  "split sep [] = [[]]"
| "split sep (x # xs) =
     (if x = sep then [] # split sep xs
      else (case split sep xs of
              [] \<Rightarrow> [[x]]
            | w # ws \<Rightarrow> (x # w) # ws))"

text \<open>\<open>s.rfind(c)\<close>: the highest index holding \<open>c\<close>, or \<open>-1\<close>. The scan runs left to
  right and remembers the last hit.\<close>

primrec rfind_from :: "char \<Rightarrow> string \<Rightarrow> int \<Rightarrow> int \<Rightarrow> int" where
  "rfind_from c [] i acc = acc"
| "rfind_from c (x # xs) i acc = rfind_from c xs (i + 1) (if x = c then i else acc)"

definition rfind :: "string \<Rightarrow> char \<Rightarrow> int" where
  "rfind p c = rfind_from c p 0 (- 1)"

text \<open>
  \<open>os.path.splitext\<close> (POSIX flavour, \<open>genericpath._splitext(p, '/', None, '.')\<close>):
  \<^verbatim>\<open>
    sepIndex = p.rfind(sep)
    dotIndex = p.rfind(extsep)
    if dotIndex > sepIndex:
        filenameIndex = sepIndex + 1
        while filenameIndex < dotIndex:
            if p[filenameIndex:filenameIndex+1] != extsep:
                return p[:dotIndex], p[dotIndex:]
            filenameIndex += 1
    return p, p[:0]
  \<close>
  \<open>splitext_loop p filenameIndex dotIndex\<close> is the \<open>while\<close> loop: it answers whether the
  loop leaves through its \<open>return\<close> (a character other than the dot stands before the
  last dot of the file name).
\<close>

function splitext_loop :: "string \<Rightarrow> int \<Rightarrow> int \<Rightarrow> bool" where
  "splitext_loop p filenameIndex dotIndex =
     (if filenameIndex < dotIndex
      then (if p ! nat filenameIndex \<noteq> CHR ''.'' then True
            else splitext_loop p (filenameIndex + 1) dotIndex)
      else False)"
  by pat_completeness auto
termination
  by (relation "measure (\<lambda>(p, filenameIndex, dotIndex). nat (dotIndex - filenameIndex))") auto

declare splitext_loop.simps [simp del]

definition splitext :: "string \<Rightarrow> string \<times> string" where
  "splitext p =
     (let sepIndex = rfind p (CHR ''/'');
          dotIndex = rfind p (CHR ''.'')
      in if dotIndex > sepIndex \<and> splitext_loop p (sepIndex + 1) dotIndex
         then (take (nat dotIndex) p, drop (nat dotIndex) p)
         else (p, []))"

text \<open>\<open>s.lower()\<close> on the ASCII letters.\<close>

definition lower_char :: "char \<Rightarrow> char" where
  "lower_char c =
     (case map_of (zip ''ABCDEFGHIJKLMNOPQRSTUVWXYZ'' ''abcdefghijklmnopqrstuvwxyz'') c of
        None \<Rightarrow> c
      | Some l \<Rightarrow> l)"

definition lower :: "string \<Rightarrow> string" where
  "lower s = map lower_char s"

text \<open>\<open>s.lstrip('.')\<close>\<close>

definition lstrip_dot :: "string \<Rightarrow> string" where
  "lstrip_dot s = dropWhile (\<lambda>c. c = CHR ''.'') s"

section \<open>External collaborators\<close>

text \<open>
  Values that travel in keyword dictionaries (\<open>True\<close>, \<open>2000\<close>, \<open>'limit'\<close>) and the
  dictionaries themselves, in insertion order. \<open>dict_set\<close> is \<open>d[k] = v\<close>,
  \<open>dict_get\<close> is \<open>d.get(k)\<close>.
\<close>

datatype pyval = PBool bool | PInt int | PStr string

type_synonym pydict = "(string \<times> pyval) list"

fun dict_set :: "pydict \<Rightarrow> string \<Rightarrow> pyval \<Rightarrow> pydict" where
  "dict_set [] k v = [(k, v)]"
| "dict_set ((k', v') # d) k v = (if k' = k then (k, v) # d else (k', v') # dict_set d k v)"

definition dict_get :: "pydict \<Rightarrow> string \<Rightarrow> pyval option" where
  "dict_get d k = map_of d k"

text \<open>
  Exceptions below \<open>Exception\<close>, each with its \<open>str(e)\<close>: \<open>cloudinary.exceptions.NotFound\<close>,
  which three handlers name, and every other one.
\<close>

datatype exn = NotFound string | Exception string

fun str_exn :: "exn \<Rightarrow> string" where
  "str_exn (NotFound m) = m"
| "str_exn (Exception m) = m"

text \<open>
  The calls that leave the adapter: \<open>cloudinary.uploader.upload(file_content, **options)\<close>,
  \<open>cloudinary.uploader.destroy(public_id, **options)\<close>,
  \<open>cloudinary.api.resource(public_id, **options)\<close> and
  \<open>CloudinaryImage(public_id).build_url(**options)\<close>.
\<close>

datatype call =
    Upload string pydict
  | Destroy string pydict
  | Resource string pydict
  | BuildUrl string pydict

datatype level = ERROR | WARNING | DEBUG

text \<open>What an operation leaves behind: the calls it made, in order, and its log records.\<close>

record world =
  calls :: "call list"
  logs :: "(level \<times> string) list"

text \<open>
  The environment of the adapter. \<open>CLOUDINARY_FOLDER\<close> is the Django setting (absent:
  \<open>None\<close>). The hosted service and the URL builder answer a call with a result or an
  exception; the answer may depend on every call made before, so no behaviour of the
  service is excluded. \<open>sanitize_filename\<close> is imported from \<open>providers.models\<close>.
\<close>

record env =
  CLOUDINARY_FOLDER :: "string option"
  uploader_upload :: "call list \<Rightarrow> string \<Rightarrow> pydict \<Rightarrow> exn + pydict"
  uploader_destroy :: "call list \<Rightarrow> string \<Rightarrow> pydict \<Rightarrow> exn + pydict"
  api_resource :: "call list \<Rightarrow> string \<Rightarrow> pydict \<Rightarrow> exn + pydict"
  build_url :: "call list \<Rightarrow> string \<Rightarrow> pydict \<Rightarrow> exn + string"
  sanitize_filename :: "string \<Rightarrow> string"

text \<open>\<open>getattr(settings, 'CLOUDINARY_FOLDER', 'media')\<close>\<close>

definition folder_setting :: "env \<Rightarrow> string" where
  "folder_setting e = (case CLOUDINARY_FOLDER e of None \<Rightarrow> ''media'' | Some f \<Rightarrow> f)"

definition do_upload :: "env \<Rightarrow> string \<Rightarrow> pydict \<Rightarrow> world \<Rightarrow> (exn + pydict) \<times> world" where
  "do_upload e file_content opts w =
     (uploader_upload e (calls w) file_content opts,
      w\<lparr>calls := calls w @ [Upload file_content opts]\<rparr>)"

definition do_destroy :: "env \<Rightarrow> string \<Rightarrow> pydict \<Rightarrow> world \<Rightarrow> (exn + pydict) \<times> world" where
  "do_destroy e public_id opts w =
     (uploader_destroy e (calls w) public_id opts,
      w\<lparr>calls := calls w @ [Destroy public_id opts]\<rparr>)"

definition do_resource :: "env \<Rightarrow> string \<Rightarrow> pydict \<Rightarrow> world \<Rightarrow> (exn + pydict) \<times> world" where
  "do_resource e public_id opts w =
     (api_resource e (calls w) public_id opts,
      w\<lparr>calls := calls w @ [Resource public_id opts]\<rparr>)"

definition do_build_url :: "env \<Rightarrow> string \<Rightarrow> pydict \<Rightarrow> world \<Rightarrow> (exn + string) \<times> world" where
  "do_build_url e public_id opts w =
     (build_url e (calls w) public_id opts,
      w\<lparr>calls := calls w @ [BuildUrl public_id opts]\<rparr>)"

definition log_record :: "level \<Rightarrow> string \<Rightarrow> world \<Rightarrow> world" where
  "log_record l msg w = w\<lparr>logs := logs w @ [(l, msg)]\<rparr>"

text \<open>
  \<open>str(uuid.uuid4())\<close>: the 128-bit value \<open>n\<close> printed as \<open>'%032x'\<close> and cut into groups
  of 8, 4, 4, 4 and 12 digits joined by hyphens. The random value is an argument of the
  operations that draw one.
\<close>

definition hexdigit :: "nat \<Rightarrow> char" where
  "hexdigit d = ''0123456789abcdef'' ! d"

definition uuid_hex :: "nat \<Rightarrow> string" where
  "uuid_hex n = map (\<lambda>i. hexdigit ((n div 16 ^ (31 - i)) mod 16)) [0..<32]"

definition uuid_str :: "nat \<Rightarrow> string" where
  "uuid_str n =
     (let h = uuid_hex n
      in take 8 h @ ''-'' @ take 4 (drop 8 h) @ ''-'' @ take 4 (drop 12 h) @ ''-''
         @ take 4 (drop 16 h) @ ''-'' @ drop 20 h)"

section \<open>CloudinaryStorage\<close>

text \<open>
  The content handed to \<open>_save\<close>: \<open>content.read()\<close> after the rewind, whether it is an
  \<open>UploadedFile\<close>, and its \<open>content_type\<close> attribute (\<open>None\<close> when absent).
\<close>

record content =
  file_content :: string
  is_uploaded_file :: bool
  content_type :: "string option"

definition format_mapping :: pydict where
  "format_mapping =
     [(''jpg'', PStr ''jpg''), (''jpeg'', PStr ''jpg''), (''png'', PStr ''png''),
      (''gif'', PStr ''gif''), (''webp'', PStr ''webp''), (''svg'', PStr ''svg'')]"

text \<open>\<open>_generate_public_id\<close>, with the random UUID \<open>u\<close> it draws.\<close>

definition generate_public_id :: "env \<Rightarrow> nat \<Rightarrow> string \<Rightarrow> string" where
  "generate_public_id e u filename =
     (let sanitized = sanitize_filename e filename;
          name_without_ext = fst (splitext sanitized);
          unique_id = take 8 (uuid_str u)
      in name_without_ext @ ''_'' @ unique_id)"

text \<open>The keyword dictionary \<open>_save\<close> has built when it reaches the upload call.\<close>

definition upload_options :: "env \<Rightarrow> nat \<Rightarrow> string \<Rightarrow> content \<Rightarrow> pydict" where
  "upload_options e u name c =
     (let ctype = (if is_uploaded_file c then content_type c else None);
          file_ext = lstrip_dot (lower (snd (splitext name)));
          public_id = generate_public_id e u name;
          folder = folder_setting e;
          opts0 = [(''public_id'', PStr public_id), (''resource_type'', PStr ''image''),
                   (''overwrite'', PBool False), (''folder'', PStr folder),
                   (''use_filename'', PBool False), (''unique_filename'', PBool False)];
          opts1 = (case dict_get format_mapping file_ext of
                     Some v \<Rightarrow> dict_set opts0 ''format'' v
                   | None \<Rightarrow> opts0)
      in case ctype of
           None \<Rightarrow> opts1
         | Some ct \<Rightarrow>
             if ct \<noteq> [] \<and> CHR ''/'' \<in> set ct
             then (let detected_format = last (split (CHR ''/'') ct)
                   in if PStr detected_format \<in> set (map snd format_mapping)
                      then dict_set opts1 ''format'' (PStr detected_format)
                      else opts1)
             else opts1)"

text \<open>\<open>_save\<close>: \<open>Inr\<close> the stored reference, \<open>Inl\<close> the exception it raises.\<close>

definition save :: "env \<Rightarrow> nat \<Rightarrow> string \<Rightarrow> content \<Rightarrow> world \<Rightarrow> (exn + string) \<times> world" where
  "save e u name c w =
     (let public_id = generate_public_id e u name;
          folder = folder_setting e
      in case do_upload e (file_content c) (upload_options e u name c) w of
           (Inr result, w') \<Rightarrow> (Inr (folder @ ''/'' @ public_id), w')
         | (Inl ex, w') \<Rightarrow>
             (let msg = ''Failed to upload '' @ name @ '' to Cloudinary: '' @ str_exn ex
              in (Inl (Exception msg), log_record ERROR msg w')))"

text \<open>\<open>_extract_public_id\<close>; \<open>None\<close> is Python's \<open>None\<close>.\<close>

definition extract_public_id :: "env \<Rightarrow> string \<Rightarrow> string option" where
  "extract_public_id e name =
     (if name = [] then None
      else
        let folder = folder_setting e in
        if startswith name (folder @ ''/'') then Some (fst (splitext name))
        else
          let parts = split (CHR ''/'') name in
          if str_contains name ''cloudinary.com'' \<and> length parts \<ge> 2
          then (let filename = last parts;
                    public_id = fst (splitext filename)
                in if length parts \<ge> 3
                      \<and> parts ! (length parts - 2) = last (split (CHR ''/'') folder)
                   then Some (folder @ ''/'' @ public_id)
                   else Some (folder @ ''/'' @ public_id))
          else
            (let public_id = fst (splitext name)
             in if CHR ''/'' \<in> set public_id \<and> \<not> startswith public_id folder
                then Some public_id
                else if startswith public_id folder then Some public_id
                else Some (folder @ ''/'' @ public_id)))"

text \<open>
  \<open>delete\<close>. The \<open>try\<close> body comes first; the two handlers follow it. The test
  \<open>if public_id:\<close> fails for \<open>None\<close> and for the empty string.
\<close>

definition delete_body :: "env \<Rightarrow> string \<Rightarrow> world \<Rightarrow> (exn + unit) \<times> world" where
  "delete_body e name w =
     (case extract_public_id e name of
        None \<Rightarrow> (Inr (), w)
      | Some public_id \<Rightarrow>
          if public_id \<noteq> []
          then (case do_destroy e public_id
                       [(''resource_type'', PStr ''image''), (''invalidate'', PBool True)] w of
                  (Inr r, w') \<Rightarrow> (Inr (), w')
                | (Inl ex, w') \<Rightarrow> (Inl ex, w'))
          else (Inr (), w))"

definition delete :: "env \<Rightarrow> string \<Rightarrow> world \<Rightarrow> (exn + unit) \<times> world" where
  "delete e name w =
     (if name = [] then (Inr (), w)
      else case delete_body e name w of
             (Inr r, w') \<Rightarrow> (Inr (), w')
           | (Inl (NotFound m), w') \<Rightarrow> (Inr (), w')
           | (Inl (Exception m), w') \<Rightarrow>
               (Inr (), log_record WARNING (''Failed to delete '' @ name @ '' from Cloudinary: '' @ m) w'))"

text \<open>\<open>exists\<close>\<close>

definition exists_body :: "env \<Rightarrow> string \<Rightarrow> world \<Rightarrow> (exn + bool) \<times> world" where
  "exists_body e name w =
     (case extract_public_id e name of
        None \<Rightarrow> (Inr False, w)
      | Some public_id \<Rightarrow>
          if public_id = [] then (Inr False, w)
          else (case do_resource e public_id [(''resource_type'', PStr ''image'')] w of
                  (Inr r, w') \<Rightarrow> (Inr True, w')
                | (Inl ex, w') \<Rightarrow> (Inl ex, w')))"

definition exists :: "env \<Rightarrow> string \<Rightarrow> world \<Rightarrow> (exn + bool) \<times> world" where
  "exists e name w =
     (if name = [] then (Inr False, w)
      else case exists_body e name w of
             (Inr b, w') \<Rightarrow> (Inr b, w')
           | (Inl (NotFound m), w') \<Rightarrow> (Inr False, w')
           | (Inl (Exception m), w') \<Rightarrow>
               (Inr False, log_record DEBUG (''Error checking existence of '' @ name @ '': '' @ m) w'))"

text \<open>\<open>size\<close> (\<open>size_op\<close> here, as \<open>size\<close> is taken); \<open>resource.get('bytes', 0)\<close> reads the
  answer of the service.\<close>

definition size_body :: "env \<Rightarrow> string \<Rightarrow> world \<Rightarrow> (exn + pyval) \<times> world" where
  "size_body e name w =
     (case extract_public_id e name of
        None \<Rightarrow> (Inr (PInt 0), w)
      | Some public_id \<Rightarrow>
          if public_id = [] then (Inr (PInt 0), w)
          else (case do_resource e public_id [(''resource_type'', PStr ''image'')] w of
                  (Inr resource, w') \<Rightarrow>
                    (Inr (case dict_get resource ''bytes'' of None \<Rightarrow> PInt 0 | Some v \<Rightarrow> v), w')
                | (Inl ex, w') \<Rightarrow> (Inl ex, w')))"

definition size_op :: "env \<Rightarrow> string \<Rightarrow> world \<Rightarrow> (exn + pyval) \<times> world" where
  "size_op e name w =
     (if name = [] then (Inr (PInt 0), w)
      else case size_body e name w of
             (Inr v, w') \<Rightarrow> (Inr v, w')
           | (Inl (NotFound m), w') \<Rightarrow> (Inr (PInt 0), w')
           | (Inl (Exception m), w') \<Rightarrow>
               (Inr (PInt 0), log_record DEBUG (''Error getting size for '' @ name @ '': '' @ m) w'))"

text \<open>
  \<open>url\<close> of the three classes. They differ in the \<open>options\<close> dictionary and in the text
  of the warning, so the shared shape takes both.
\<close>

definition url_body :: "pydict \<Rightarrow> env \<Rightarrow> string \<Rightarrow> world \<Rightarrow> (exn + string) \<times> world" where
  "url_body options e name w =
     (case extract_public_id e name of
        None \<Rightarrow> (Inr [], w)
      | Some public_id \<Rightarrow>
          if public_id = [] then (Inr [], w)
          else do_build_url e public_id options w)"

definition url_with :: "pydict \<Rightarrow> string \<Rightarrow> env \<Rightarrow> string \<Rightarrow> world \<Rightarrow> (exn + string) \<times> world" where
  "url_with options what e name w =
     (if name = [] then (Inr [], w)
      else case url_body options e name w of
             (Inr u, w') \<Rightarrow> (Inr u, w')
           | (Inl ex, w') \<Rightarrow>
               (Inr [], log_record WARNING (''Failed to generate '' @ what @ '' for '' @ name @ '': ''
                                      @ str_exn ex) w'))"

text \<open>\<open>CloudinaryStorage.url\<close>\<close>

definition url_options :: pydict where
  "url_options =
     [(''secure'', PBool True), (''resource_type'', PStr ''image''),
      (''quality'', PStr ''auto:good''), (''crop'', PStr ''limit''),
      (''width'', PInt 2000), (''height'', PInt 2000)]"

definition url :: "env \<Rightarrow> string \<Rightarrow> world \<Rightarrow> (exn + string) \<times> world" where
  "url = url_with url_options ''URL''"

text \<open>\<open>CloudinaryMediaStorage.url\<close>\<close>

definition media_url_options :: pydict where
  "media_url_options =
     [(''secure'', PBool True), (''resource_type'', PStr ''image''),
      (''quality'', PStr ''auto:good''), (''crop'', PStr ''limit''),
      (''width'', PInt 2000), (''height'', PInt 2000)]"

definition media_url :: "env \<Rightarrow> string \<Rightarrow> world \<Rightarrow> (exn + string) \<times> world" where
  "media_url = url_with media_url_options ''media URL''"

text \<open>\<open>CloudinaryThumbnailStorage.url\<close>\<close>

definition thumbnail_url_options :: pydict where
  "thumbnail_url_options =
     [(''secure'', PBool True), (''resource_type'', PStr ''image''),
      (''quality'', PStr ''auto:good''), (''crop'', PStr ''fill''),
      (''width'', PInt 300), (''height'', PInt 300), (''gravity'', PStr ''auto'')]"

definition thumbnail_url :: "env \<Rightarrow> string \<Rightarrow> world \<Rightarrow> (exn + string) \<times> world" where
  "thumbnail_url = url_with thumbnail_url_options ''thumbnail URL''"

section \<open>Two concrete environments\<close>

text \<open>
  \<open>hosted_service\<close> accepts every upload, answers \<open>NotFound\<close> to the second
  \<open>destroy\<close> of an identifier and to every lookup, and builds a URL from the
  identifier; the folder setting is absent. \<open>failing_service\<close> raises on every call,
  with the folder set to \<open>folder\<close>. \<open>sanitize_filename\<close> is not among the sources;
  both environments leave the name as it is, and no statement below rests on that.
\<close>

definition hosted_service :: env where
  "hosted_service =
     \<lparr>CLOUDINARY_FOLDER = None,
      uploader_upload = (\<lambda>h data opts. Inr [(''bytes'', PInt (int (length data)))]),
      uploader_destroy = (\<lambda>h public_id opts.
         if Destroy public_id opts \<in> set h then Inl (NotFound ''Resource not found'')
         else Inr [(''result'', PStr ''ok'')]),
      api_resource = (\<lambda>h public_id opts. Inl (NotFound ''Resource not found'')),
      build_url = (\<lambda>h public_id opts.
         Inr (''https://res.cloudinary.com/demo/image/upload/'' @ public_id)),
      sanitize_filename = (\<lambda>filename. filename)\<rparr>"

definition failing_service :: env where
  "failing_service =
     \<lparr>CLOUDINARY_FOLDER = Some ''folder'',
      uploader_upload = (\<lambda>h data opts. Inl (Exception ''Connection timed out'')),
      uploader_destroy = (\<lambda>h public_id opts. Inl (Exception ''Connection timed out'')),
      api_resource = (\<lambda>h public_id opts. Inl (Exception ''Connection timed out'')),
      build_url = (\<lambda>h public_id opts. Inl (Exception ''Must supply cloud_name'')),
      sanitize_filename = (\<lambda>filename. filename)\<rparr>"

definition fresh_world :: world where
  "fresh_world = \<lparr>calls = [], logs = []\<rparr>"

definition png_upload :: content where
  "png_upload = \<lparr>file_content = ''PNG'', is_uploaded_file = True, content_type = Some ''image/png''\<rparr>"

section \<open>Facts about the string primitives\<close>

lemma rfind_from_range:
  "rfind_from c p i acc = acc \<or> (i \<le> rfind_from c p i acc \<and> rfind_from c p i acc < i + int (length p))"
proof (induction p arbitrary: i acc)
  case Nil
  then show ?case by simp
next
  case (Cons x xs)
  from Cons.IH [of "i + 1" "if x = c then i else acc"] show ?case
    by (auto split: if_splits)
qed

lemma rfind_lower: "- 1 \<le> rfind p c"
  using rfind_from_range [of c p 0 "- 1"] by (auto simp: rfind_def)

lemma rfind_upper: "rfind p c < int (length p)"
  using rfind_from_range [of c p 0 "- 1"] by (auto simp: rfind_def)

lemma rfind_from_ge:
  "k < length p \<Longrightarrow> p ! k = c \<Longrightarrow> i + int k \<le> rfind_from c p i acc"
proof (induction p arbitrary: i acc k)
  case Nil
  then show ?case by simp
next
  case (Cons x xs)
  show ?case
  proof (cases k)
    case 0
    with Cons.prems have "x = c" by simp
    then show ?thesis
      using 0 rfind_from_range [of c xs "i + 1" i] by auto
  next
    case (Suc k')
    with Cons.prems have "k' < length xs" "xs ! k' = c" by simp_all
    from Cons.IH [OF this, of "i + 1" "if x = c then i else acc"] Suc
    show ?thesis by simp
  qed
qed

lemma rfind_ge: "k < length p \<Longrightarrow> p ! k = c \<Longrightarrow> int k \<le> rfind p c"
  using rfind_from_ge [of k p c 0 "- 1"] by (simp add: rfind_def)

lemma splitext_loop_iff:
  "splitext_loop p i d \<longleftrightarrow> (\<exists>k. i \<le> k \<and> k < d \<and> p ! nat k \<noteq> CHR ''.'')"
proof (induction p i d rule: splitext_loop.induct)
  case (1 p i d)
  show ?case
  proof (cases "i < d")
    case False
    then show ?thesis by (subst splitext_loop.simps) auto
  next
    case True
    show ?thesis
    proof (cases "p ! nat i \<noteq> CHR ''.''")
      case yes: True
      with True show ?thesis by (subst splitext_loop.simps) auto
    next
      case no: False
      have "splitext_loop p i d = splitext_loop p (i + 1) d"
        using True no by (subst splitext_loop.simps) simp
      also have "\<dots> \<longleftrightarrow> (\<exists>k. i + 1 \<le> k \<and> k < d \<and> p ! nat k \<noteq> CHR ''.'')"
        using "1.IH" True no by simp
      also have "\<dots> \<longleftrightarrow> (\<exists>k. i \<le> k \<and> k < d \<and> p ! nat k \<noteq> CHR ''.'')"
      proof
        assume "\<exists>k. i + 1 \<le> k \<and> k < d \<and> p ! nat k \<noteq> CHR ''.''"
        then obtain k where k: "i + 1 \<le> k" "k < d" "p ! nat k \<noteq> CHR ''.''" by blast
        then have "i \<le> k" by simp
        with k show "\<exists>k. i \<le> k \<and> k < d \<and> p ! nat k \<noteq> CHR ''.''" by blast
      next
        assume "\<exists>k. i \<le> k \<and> k < d \<and> p ! nat k \<noteq> CHR ''.''"
        then obtain k where k: "i \<le> k" "k < d" "p ! nat k \<noteq> CHR ''.''" by blast
        with no have "k \<noteq> i" by auto
        with k have "i + 1 \<le> k" by simp
        with k show "\<exists>k. i + 1 \<le> k \<and> k < d \<and> p ! nat k \<noteq> CHR ''.''" by blast
      qed
      finally show ?thesis .
    qed
  qed
qed

lemma fst_splitext_take: "\<exists>n. fst (splitext p) = take n p"
proof (cases "rfind p (CHR ''/'') < rfind p (CHR ''.'') \<and> splitext_loop p (rfind p (CHR ''/'') + 1) (rfind p (CHR ''.''))")
  case True
  then have "fst (splitext p) = take (nat (rfind p (CHR ''.''))) p"
    by (simp add: splitext_def Let_def)
  then show ?thesis by blast
next
  case False
  then have "fst (splitext p) = take (length p) p"
    by (auto simp: splitext_def Let_def)
  then show ?thesis by blast
qed

lemma fst_splitext_nonempty:
  assumes "p \<noteq> []"
  shows "fst (splitext p) \<noteq> []"
proof (cases "rfind p (CHR ''/'') < rfind p (CHR ''.'') \<and> splitext_loop p (rfind p (CHR ''/'') + 1) (rfind p (CHR ''.''))")
  case True
  then obtain k where "rfind p (CHR ''/'') + 1 \<le> k" "k < rfind p (CHR ''.'')"
    by (auto simp: splitext_loop_iff)
  with rfind_lower [of p "CHR ''/''"] have "0 < rfind p (CHR ''.'')" by linarith
  moreover from True have "fst (splitext p) = take (nat (rfind p (CHR ''.''))) p"
    by (simp add: splitext_def Let_def)
  ultimately show ?thesis using assms by (cases p) (auto simp: take_Cons split: nat.splits)
next
  case False
  then have "fst (splitext p) = p" by (auto simp: splitext_def Let_def)
  with assms show ?thesis by simp
qed

section \<open>Facts about the operations\<close>

lemma extract_public_id_Some:
  assumes "name \<noteq> []"
  shows "\<exists>pid. extract_public_id e name = Some pid \<and> pid \<noteq> []"
  using assms fst_splitext_nonempty [of name]
  by (auto simp: extract_public_id_def Let_def)

lemma extract_public_id_SomeD:
  assumes "extract_public_id e name = Some pid"
  shows "name \<noteq> []" and "pid \<noteq> []"
proof -
  show "name \<noteq> []" using assms by (auto simp: extract_public_id_def)
  then show "pid \<noteq> []" using assms extract_public_id_Some [of name e] by auto
qed

lemma calls_log_record: "calls (log_record l m w) = calls w"
  by (simp add: log_record_def)

lemma url_with_empty: "url_with opts what e [] w = (Inr [], w)"
  by (simp add: url_with_def)

lemma url_with_Some:
  assumes "extract_public_id e name = Some pid"
  shows "url_with opts what e name w =
     (let w' = w\<lparr>calls := calls w @ [BuildUrl pid opts]\<rparr>
      in case build_url e (calls w) pid opts of
           Inr u \<Rightarrow> (Inr u, w')
         | Inl ex \<Rightarrow>
             (Inr [], log_record WARNING (''Failed to generate '' @ what @ '' for '' @ name @ '': ''
                                           @ str_exn ex) w'))"
  using assms extract_public_id_SomeD [OF assms]
  by (simp add: url_with_def url_body_def do_build_url_def Let_def split: sum.splits)

lemma url_with_calls:
  "extract_public_id e name = Some pid \<Longrightarrow>
   calls (snd (url_with opts what e name w)) = calls w @ [BuildUrl pid opts]"
  by (simp add: url_with_Some Let_def calls_log_record split: sum.splits)

lemma url_with_result:
  "extract_public_id e name = Some pid \<Longrightarrow>
   fst (url_with opts what e name w) =
     (case build_url e (calls w) pid opts of Inr u \<Rightarrow> Inr u | Inl ex \<Rightarrow> Inr [])"
  by (simp add: url_with_Some Let_def split: sum.splits)

lemma url_with_never_raises: "\<exists>s. fst (url_with opts what e name w) = Inr s"
proof (cases "name = []")
  case True
  then show ?thesis by (simp add: url_with_empty)
next
  case False
  then obtain pid where "extract_public_id e name = Some pid"
    using extract_public_id_Some by blast
  then show ?thesis by (simp add: url_with_result split: sum.splits)
qed

lemma delete_result: "fst (delete e name w) = Inr ()"
  by (simp add: delete_def split: prod.splits sum.splits exn.splits)

lemma delete_Some:
  assumes "extract_public_id e name = Some pid"
  shows "delete e name w =
     (let opts = [(''resource_type'', PStr ''image''), (''invalidate'', PBool True)];
          w' = w\<lparr>calls := calls w @ [Destroy pid opts]\<rparr>
      in case uploader_destroy e (calls w) pid opts of
           Inr r \<Rightarrow> (Inr (), w')
         | Inl (NotFound m) \<Rightarrow> (Inr (), w')
         | Inl (Exception m) \<Rightarrow>
             (Inr (), log_record WARNING
                        (''Failed to delete '' @ name @ '' from Cloudinary: '' @ m) w'))"
  using assms extract_public_id_SomeD [OF assms]
  by (simp add: delete_def delete_body_def do_destroy_def Let_def split: sum.splits exn.splits)

lemma exists_Some:
  assumes "extract_public_id e name = Some pid"
  shows "exists e name w =
     (let opts = [(''resource_type'', PStr ''image'')];
          w' = w\<lparr>calls := calls w @ [Resource pid opts]\<rparr>
      in case api_resource e (calls w) pid opts of
           Inr r \<Rightarrow> (Inr True, w')
         | Inl (NotFound m) \<Rightarrow> (Inr False, w')
         | Inl (Exception m) \<Rightarrow>
             (Inr False, log_record DEBUG
                           (''Error checking existence of '' @ name @ '': '' @ m) w'))"
  using assms extract_public_id_SomeD [OF assms]
  by (simp add: exists_def exists_body_def do_resource_def Let_def split: sum.splits exn.splits)

lemma size_Some:
  assumes "extract_public_id e name = Some pid"
  shows "size_op e name w =
     (let opts = [(''resource_type'', PStr ''image'')];
          w' = w\<lparr>calls := calls w @ [Resource pid opts]\<rparr>
      in case api_resource e (calls w) pid opts of
           Inr r \<Rightarrow> (Inr (case dict_get r ''bytes'' of None \<Rightarrow> PInt 0 | Some v \<Rightarrow> v), w')
         | Inl (NotFound m) \<Rightarrow> (Inr (PInt 0), w')
         | Inl (Exception m) \<Rightarrow>
             (Inr (PInt 0), log_record DEBUG
                              (''Error getting size for '' @ name @ '': '' @ m) w'))"
  using assms extract_public_id_SomeD [OF assms]
  by (simp add: size_op_def size_body_def do_resource_def Let_def split: sum.splits exn.splits)

lemma exists_calls:
  "extract_public_id e name = Some pid \<Longrightarrow>
   calls (snd (exists e name w)) = calls w @ [Resource pid [(''resource_type'', PStr ''image'')]]"
  by (simp add: exists_Some Let_def calls_log_record split: sum.splits exn.splits)

lemma size_calls:
  "extract_public_id e name = Some pid \<Longrightarrow>
   calls (snd (size_op e name w)) = calls w @ [Resource pid [(''resource_type'', PStr ''image'')]]"
  by (simp add: size_Some Let_def calls_log_record split: sum.splits exn.splits)

lemma exists_result: "\<exists>b. fst (exists e name w) = Inr b"
proof (cases "name = []")
  case True
  then show ?thesis by (auto simp: exists_def)
next
  case False
  then obtain pid where "extract_public_id e name = Some pid"
    using extract_public_id_Some by blast
  then show ?thesis by (auto simp: exists_Some Let_def split: sum.splits exn.splits)
qed

lemma size_result: "\<exists>v. fst (size_op e name w) = Inr v"
proof (cases "name = []")
  case True
  then show ?thesis by (auto simp: size_op_def)
next
  case False
  then obtain pid where "extract_public_id e name = Some pid"
    using extract_public_id_Some by blast
  then show ?thesis by (auto simp: size_Some Let_def split: sum.splits exn.splits)
qed

lemma save_result:
  "fst (save e u name c w) =
     (case uploader_upload e (calls w) (file_content c) (upload_options e u name c) of
        Inr r \<Rightarrow> Inr (folder_setting e @ ''/'' @ generate_public_id e u name)
      | Inl ex \<Rightarrow> Inl (Exception (''Failed to upload '' @ name @ '' to Cloudinary: '' @ str_exn ex)))"
  by (simp add: save_def do_upload_def Let_def split: sum.splits)

lemma sample_reference:
  "extract_public_id hosted_service ''media/logo_1a2b3c4d'' = Some ''media/logo_1a2b3c4d''"
  by (simp add: extract_public_id_def hosted_service_def folder_setting_def splitext_def
      rfind_def splitext_loop.simps)

lemma sample_reference_failing:
  "extract_public_id failing_service ''folder/abc123'' = Some ''folder/abc123''"
  by (simp add: extract_public_id_def failing_service_def folder_setting_def splitext_def
      rfind_def splitext_loop.simps)

section \<open>The random suffix and the stored reference\<close>

lemma unique_id_eq:
  "take 8 (uuid_str n) = map (\<lambda>i. hexdigit ((n div 16 ^ (31 - i)) mod 16)) [0..<8]"
proof -
  have "length (uuid_hex n) = 32" by (simp add: uuid_hex_def)
  then have "take 8 (uuid_str n) = take 8 (uuid_hex n)"
    by (simp add: uuid_str_def Let_def)
  also have "\<dots> = map (\<lambda>i. hexdigit ((n div 16 ^ (31 - i)) mod 16)) (take 8 [0..<32])"
    by (simp add: uuid_hex_def take_map)
  finally show ?thesis by (simp add: take_upt)
qed

lemma hexdigit_in: "d < 16 \<Longrightarrow> hexdigit d \<in> set ''0123456789abcdef''"
  unfolding hexdigit_def by (rule nth_mem) simp

lemma unique_id_length: "length (take 8 (uuid_str n)) = 8"
  by (simp add: unique_id_eq)

lemma unique_id_hex: "set (take 8 (uuid_str n)) \<subseteq> set ''0123456789abcdef''"
proof -
  have "hexdigit ((n div 16 ^ (31 - i)) mod 16) \<in> set ''0123456789abcdef''" for i
    by (rule hexdigit_in) simp
  then show ?thesis unfolding unique_id_eq by auto
qed

text \<open>
  What a successful \<open>_save\<close> returns, whatever \<open>sanitize_filename\<close> does: the folder, a
  slash, the sanitised name less the extension \<open>os.path.splitext\<close> finds in it, an
  underscore and eight lower-case hexadecimal digits. Of itself \<open>_save\<close> puts no path
  separator into the identifier.
\<close>

lemma save_reference_form:
  assumes "fst (save e u name c w) = Inr ref"
  shows "\<exists>sfx. ref = folder_setting e @ ''/'' @ fst (splitext (sanitize_filename e name))
                      @ ''_'' @ sfx
           \<and> length sfx = 8
           \<and> set sfx \<subseteq> set ''0123456789abcdef''"
proof -
  from assms have "ref = folder_setting e @ ''/'' @ generate_public_id e u name"
    by (simp add: save_result split: sum.splits)
  then have "ref = folder_setting e @ ''/'' @ fst (splitext (sanitize_filename e name))
                     @ ''_'' @ take 8 (uuid_str u)"
    by (simp add: generate_public_id_def Let_def)
  then show ?thesis
    using unique_id_length [of u] unique_id_hex [of u] by blast
qed

lemma generate_public_id_separator:
  "CHR ''/'' \<in> set (generate_public_id e u name)
     \<longleftrightarrow> CHR ''/'' \<in> set (fst (splitext (sanitize_filename e name)))"
  using unique_id_hex [of u] by (auto simp: generate_public_id_def Let_def)

section \<open>The empty reference\<close>

text \<open>
  Claim C7. For the empty reference, \<open>url\<close> (of each of the three classes) returns the
  empty string, \<open>exists\<close> returns \<open>False\<close>, \<open>size\<close> returns \<open>0\<close> and \<open>delete\<close> returns, and
  each hands back the world it was given: no call has been made and nothing is logged.
\<close>

theorem empty_reference_short_circuits:
  "url e [] w = (Inr [], w) \<and> media_url e [] w = (Inr [], w)
   \<and> thumbnail_url e [] w = (Inr [], w) \<and> exists e [] w = (Inr False, w)
   \<and> size_op e [] w = (Inr (PInt 0), w) \<and> delete e [] w = (Inr (), w)"
  by (simp add: url_def media_url_def thumbnail_url_def url_with_empty exists_def size_op_def
      delete_def)

section \<open>The media class builds the same URL as the base class\<close>

text \<open>
  Claim C9. For every name, \<open>CloudinaryMediaStorage.url\<close> returns what
  \<open>CloudinaryStorage.url\<close> returns in the same world: the two methods pass the same
  options, so they make the same call to the URL builder. (They differ in the text of
  the warning they log when the builder raises.)
\<close>

theorem media_url_same_as_url:
  "fst (media_url e name w) = fst (url e name w)
   \<and> calls (snd (media_url e name w)) = calls (snd (url e name w))
   \<and> media_url_options = url_options"
proof -
  have opts: "media_url_options = url_options"
    by (simp add: media_url_options_def url_options_def)
  show ?thesis
  proof (cases "name = []")
    case True
    then show ?thesis using opts by (simp add: media_url_def url_def url_with_empty)
  next
    case False
    then obtain pid where "extract_public_id e name = Some pid"
      using extract_public_id_Some by blast
    then show ?thesis
      using opts by (simp add: media_url_def url_def url_with_calls url_with_result)
  qed
qed

section \<open>Identifier extraction never yields an empty identifier\<close>

text \<open>
  Claim C10. For every non-empty name, \<open>_extract_public_id\<close> returns a non-empty string
  (not \<open>None\<close>, not the empty string). So \<open>exists\<close>, \<open>size\<close> and \<open>url\<close> never take their
  \<open>if not public_id\<close> branch on a non-empty name: each of them goes on to its one call,
  with the extracted identifier.
\<close>

theorem extract_public_id_never_empty:
  assumes "name \<noteq> []"
  shows "\<exists>pid. extract_public_id e name = Some pid \<and> pid \<noteq> []
           \<and> calls (snd (exists e name w))
               = calls w @ [Resource pid [(''resource_type'', PStr ''image'')]]
           \<and> calls (snd (size_op e name w))
               = calls w @ [Resource pid [(''resource_type'', PStr ''image'')]]
           \<and> calls (snd (url e name w)) = calls w @ [BuildUrl pid url_options]"
proof -
  from assms obtain pid where pid: "extract_public_id e name = Some pid" "pid \<noteq> []"
    using extract_public_id_Some by blast
  then show ?thesis
    by (simp add: exists_calls size_calls url_def url_with_calls)
qed

theorem extract_public_id_never_empty_witness:
  "''abc123.png'' \<noteq> []
   \<and> (\<exists>pid. extract_public_id failing_service ''abc123.png'' = Some pid \<and> pid \<noteq> []
        \<and> calls (snd (exists failing_service ''abc123.png'' fresh_world))
            = calls fresh_world @ [Resource pid [(''resource_type'', PStr ''image'')]]
        \<and> calls (snd (size_op failing_service ''abc123.png'' fresh_world))
            = calls fresh_world @ [Resource pid [(''resource_type'', PStr ''image'')]]
        \<and> calls (snd (url failing_service ''abc123.png'' fresh_world))
            = calls fresh_world @ [BuildUrl pid url_options])"
  using extract_public_id_never_empty [of "''abc123.png''" failing_service fresh_world] by simp

section \<open>delete never raises\<close>

text \<open>
  Claim C5. \<open>delete\<close> returns normally for every name, in every world and whatever the
  service answers, and so does a second \<open>delete\<close> of the same name after it. When the
  service answers \<open>NotFound\<close>, \<open>delete\<close> returns having only made the call; when the call
  raises anything else, \<open>delete\<close> returns having logged one warning.
\<close>

theorem delete_never_raises:
  "fst (delete e name w) = Inr ()
   \<and> fst (delete e name (snd (delete e name w))) = Inr ()
   \<and> (\<forall>pid m. extract_public_id e name = Some pid
          \<and> uploader_destroy e (calls w) pid
               [(''resource_type'', PStr ''image''), (''invalidate'', PBool True)]
              = Inl (NotFound m)
        \<longrightarrow> delete e name w =
              (Inr (), w\<lparr>calls := calls w @ [Destroy pid
                 [(''resource_type'', PStr ''image''), (''invalidate'', PBool True)]]\<rparr>))
   \<and> (\<forall>pid m. extract_public_id e name = Some pid
          \<and> uploader_destroy e (calls w) pid
               [(''resource_type'', PStr ''image''), (''invalidate'', PBool True)]
              = Inl (Exception m)
        \<longrightarrow> delete e name w =
              (Inr (), log_record WARNING
                         (''Failed to delete '' @ name @ '' from Cloudinary: '' @ m)
                         (w\<lparr>calls := calls w @ [Destroy pid
                            [(''resource_type'', PStr ''image''), (''invalidate'', PBool True)]]\<rparr>)))"
  by (simp add: delete_result delete_Some Let_def)

theorem delete_never_raises_witness:
  "fst (delete hosted_service ''media/logo_1a2b3c4d'' fresh_world) = Inr ()
   \<and> fst (delete hosted_service ''media/logo_1a2b3c4d''
            (snd (delete hosted_service ''media/logo_1a2b3c4d'' fresh_world))) = Inr ()
   \<and> delete hosted_service ''media/logo_1a2b3c4d''
        \<lparr>calls = [Destroy ''media/logo_1a2b3c4d''
                    [(''resource_type'', PStr ''image''), (''invalidate'', PBool True)]],
         logs = []\<rparr>
      = (Inr (),
         \<lparr>calls = [Destroy ''media/logo_1a2b3c4d''
                     [(''resource_type'', PStr ''image''), (''invalidate'', PBool True)],
                   Destroy ''media/logo_1a2b3c4d''
                     [(''resource_type'', PStr ''image''), (''invalidate'', PBool True)]],
          logs = []\<rparr>)
   \<and> delete failing_service ''folder/abc123'' fresh_world
      = (Inr (),
         \<lparr>calls = [Destroy ''folder/abc123''
                     [(''resource_type'', PStr ''image''), (''invalidate'', PBool True)]],
          logs = [(WARNING,
                   ''Failed to delete folder/abc123 from Cloudinary: Connection timed out'')]\<rparr>)"
proof -
  let ?opts = "[(''resource_type'', PStr ''image''), (''invalidate'', PBool True)]"
  let ?once = "\<lparr>calls = [Destroy ''media/logo_1a2b3c4d'' ?opts], logs = []\<rparr>"
  have gone: "uploader_destroy hosted_service (calls ?once) ''media/logo_1a2b3c4d'' ?opts
                = Inl (NotFound ''Resource not found'')"
    by (simp add: hosted_service_def)
  have down: "uploader_destroy failing_service (calls fresh_world) ''folder/abc123'' ?opts
                = Inl (Exception ''Connection timed out'')"
    by (simp add: failing_service_def)
  have "fst (delete hosted_service ''media/logo_1a2b3c4d'' fresh_world) = Inr ()"
    and "fst (delete hosted_service ''media/logo_1a2b3c4d''
            (snd (delete hosted_service ''media/logo_1a2b3c4d'' fresh_world))) = Inr ()"
    using delete_never_raises [of hosted_service "''media/logo_1a2b3c4d''" fresh_world]
    by simp_all
  moreover have "delete hosted_service ''media/logo_1a2b3c4d'' ?once
      = (Inr (), \<lparr>calls = [Destroy ''media/logo_1a2b3c4d'' ?opts,
                              Destroy ''media/logo_1a2b3c4d'' ?opts], logs = []\<rparr>)"
    using delete_never_raises [of hosted_service "''media/logo_1a2b3c4d''" ?once] gone
    by (simp add: sample_reference)
  moreover have "delete failing_service ''folder/abc123'' fresh_world
      = (Inr (), \<lparr>calls = [Destroy ''folder/abc123'' ?opts],
           logs = [(WARNING,
                    ''Failed to delete folder/abc123 from Cloudinary: Connection timed out'')]\<rparr>)"
    using delete_never_raises [of failing_service "''folder/abc123''" fresh_world] down
    by (simp add: sample_reference_failing fresh_world_def log_record_def)
  ultimately show ?thesis by simp
qed

section \<open>Where a failing call surfaces\<close>

text \<open>
  Claim C6. A failure of the hosted service reaches the caller from \<open>_save\<close> only:
  when the upload raises, \<open>_save\<close> raises an exception that wraps its message, and
  \<open>_save\<close> raises in no other case. \<open>exists\<close>, \<open>size\<close>, \<open>url\<close> (of the three classes)
  and \<open>delete\<close> always return; when their call raises, they return \<open>False\<close>, \<open>0\<close> and the
  empty string.
\<close>

theorem remote_failures_only_from_save:
  "(\<forall>ex. uploader_upload e (calls w) (file_content c) (upload_options e u filename c) = Inl ex
        \<longrightarrow> fst (save e u filename c w)
            = Inl (Exception (''Failed to upload '' @ filename @ '' to Cloudinary: ''
                               @ str_exn ex)))
   \<and> (\<forall>x. fst (save e u filename c w) = Inl x
        \<longrightarrow> (\<exists>ex. uploader_upload e (calls w) (file_content c)
                     (upload_options e u filename c) = Inl ex))
   \<and> (\<exists>b. fst (exists e name w) = Inr b)
   \<and> (\<exists>v. fst (size_op e name w) = Inr v)
   \<and> (\<exists>s. fst (url e name w) = Inr s)
   \<and> (\<exists>s. fst (media_url e name w) = Inr s)
   \<and> (\<exists>s. fst (thumbnail_url e name w) = Inr s)
   \<and> fst (delete e name w) = Inr ()
   \<and> (\<forall>pid ex. extract_public_id e name = Some pid
          \<and> api_resource e (calls w) pid [(''resource_type'', PStr ''image'')] = Inl ex
        \<longrightarrow> fst (exists e name w) = Inr False \<and> fst (size_op e name w) = Inr (PInt 0))
   \<and> (\<forall>pid ex. extract_public_id e name = Some pid
          \<and> build_url e (calls w) pid url_options = Inl ex
        \<longrightarrow> fst (url e name w) = Inr [])
   \<and> (\<forall>pid ex. extract_public_id e name = Some pid
          \<and> build_url e (calls w) pid media_url_options = Inl ex
        \<longrightarrow> fst (media_url e name w) = Inr [])
   \<and> (\<forall>pid ex. extract_public_id e name = Some pid
          \<and> build_url e (calls w) pid thumbnail_url_options = Inl ex
        \<longrightarrow> fst (thumbnail_url e name w) = Inr [])"
proof -
  have a: "\<forall>ex. uploader_upload e (calls w) (file_content c) (upload_options e u filename c)
                  = Inl ex
        \<longrightarrow> fst (save e u filename c w)
            = Inl (Exception (''Failed to upload '' @ filename @ '' to Cloudinary: ''
                               @ str_exn ex))"
    by (simp add: save_result)
  have b: "\<forall>x. fst (save e u filename c w) = Inl x
        \<longrightarrow> (\<exists>ex. uploader_upload e (calls w) (file_content c)
                     (upload_options e u filename c) = Inl ex)"
    by (simp add: save_result split: sum.splits)
  have c: "\<forall>pid ex. extract_public_id e name = Some pid
          \<and> api_resource e (calls w) pid [(''resource_type'', PStr ''image'')] = Inl ex
        \<longrightarrow> fst (exists e name w) = Inr False \<and> fst (size_op e name w) = Inr (PInt 0)"
    by (simp add: exists_Some size_Some Let_def split: exn.splits)
  have d: "\<forall>pid ex. extract_public_id e name = Some pid
          \<and> build_url e (calls w) pid opts = Inl ex
        \<longrightarrow> fst (url_with opts what e name w) = Inr []" for opts what
    by (simp add: url_with_result)
  show ?thesis
    using a b c d [of url_options] d [of media_url_options] d [of thumbnail_url_options]
      exists_result [of e name w] size_result [of e name w] delete_result [of e name w]
      url_with_never_raises [of url_options _ e name w]
      url_with_never_raises [of media_url_options _ e name w]
      url_with_never_raises [of thumbnail_url_options _ e name w]
    unfolding url_def media_url_def thumbnail_url_def by blast
qed

theorem remote_failures_only_from_save_witness:
  "fst (save failing_service 0 ''logo.png'' png_upload fresh_world)
     = Inl (Exception ''Failed to upload logo.png to Cloudinary: Connection timed out'')
   \<and> fst (exists failing_service ''folder/abc123'' fresh_world) = Inr False
   \<and> fst (size_op failing_service ''folder/abc123'' fresh_world) = Inr (PInt 0)
   \<and> fst (url failing_service ''folder/abc123'' fresh_world) = Inr []
   \<and> fst (media_url failing_service ''folder/abc123'' fresh_world) = Inr []
   \<and> fst (thumbnail_url failing_service ''folder/abc123'' fresh_world) = Inr []
   \<and> fst (delete failing_service ''folder/abc123'' fresh_world) = Inr ()"
proof -
  have up: "uploader_upload failing_service (calls fresh_world) (file_content png_upload)
              (upload_options failing_service 0 ''logo.png'' png_upload)
            = Inl (Exception ''Connection timed out'')"
    by (simp add: failing_service_def)
  have res: "api_resource failing_service (calls fresh_world) ''folder/abc123''
               [(''resource_type'', PStr ''image'')] = Inl (Exception ''Connection timed out'')"
    by (simp add: failing_service_def)
  have bld: "build_url failing_service (calls fresh_world) ''folder/abc123'' opts
               = Inl (Exception ''Must supply cloud_name'')" for opts
    by (simp add: failing_service_def)
  show ?thesis
    using remote_failures_only_from_save
      [where e = failing_service and w = fresh_world and c = png_upload and u = 0
         and filename = "''logo.png''" and name = "''folder/abc123''"]
      up res bld
    by (simp add: sample_reference_failing)
qed

section \<open>The options handed to the URL builder\<close>

text \<open>
  Claim C8. For every non-empty reference the thumbnail class makes one call to the URL
  builder, with \<open>width=300\<close>, \<open>height=300\<close>, \<open>crop='fill'\<close> and \<open>gravity='auto'\<close>, and
  the base class makes one call with \<open>width=2000\<close>, \<open>height=2000\<close> and \<open>crop='limit'\<close>
  and with neither \<open>fetch_format\<close> nor \<open>format\<close> among its options.
\<close>

theorem url_builder_options:
  assumes "name \<noteq> []"
  shows "\<exists>pid. extract_public_id e name = Some pid
           \<and> calls (snd (thumbnail_url e name w))
               = calls w @ [BuildUrl pid thumbnail_url_options]
           \<and> dict_get thumbnail_url_options ''width'' = Some (PInt 300)
           \<and> dict_get thumbnail_url_options ''height'' = Some (PInt 300)
           \<and> dict_get thumbnail_url_options ''crop'' = Some (PStr ''fill'')
           \<and> dict_get thumbnail_url_options ''gravity'' = Some (PStr ''auto'')
           \<and> calls (snd (url e name w)) = calls w @ [BuildUrl pid url_options]
           \<and> dict_get url_options ''width'' = Some (PInt 2000)
           \<and> dict_get url_options ''height'' = Some (PInt 2000)
           \<and> dict_get url_options ''crop'' = Some (PStr ''limit'')
           \<and> dict_get url_options ''fetch_format'' = None
           \<and> dict_get url_options ''format'' = None"
proof -
  from assms obtain pid where pid: "extract_public_id e name = Some pid"
    using extract_public_id_Some by blast
  have "dict_get thumbnail_url_options ''width'' = Some (PInt 300)"
    "dict_get thumbnail_url_options ''height'' = Some (PInt 300)"
    "dict_get thumbnail_url_options ''crop'' = Some (PStr ''fill'')"
    "dict_get thumbnail_url_options ''gravity'' = Some (PStr ''auto'')"
    by (simp_all add: dict_get_def thumbnail_url_options_def)
  moreover have "dict_get url_options ''width'' = Some (PInt 2000)"
    "dict_get url_options ''height'' = Some (PInt 2000)"
    "dict_get url_options ''crop'' = Some (PStr ''limit'')"
    "dict_get url_options ''fetch_format'' = None"
    "dict_get url_options ''format'' = None"
    by (simp_all add: dict_get_def url_options_def)
  moreover have
    "calls (snd (thumbnail_url e name w)) = calls w @ [BuildUrl pid thumbnail_url_options]"
    "calls (snd (url e name w)) = calls w @ [BuildUrl pid url_options]"
    using pid by (simp_all add: thumbnail_url_def url_def url_with_calls)
  ultimately show ?thesis using pid by simp
qed

theorem url_builder_options_witness:
  "''media/logo_1a2b3c4d'' \<noteq> []
   \<and> calls (snd (thumbnail_url hosted_service ''media/logo_1a2b3c4d'' fresh_world))
       = [BuildUrl ''media/logo_1a2b3c4d'' thumbnail_url_options]
   \<and> calls (snd (url hosted_service ''media/logo_1a2b3c4d'' fresh_world))
       = [BuildUrl ''media/logo_1a2b3c4d'' url_options]"
  using url_builder_options [of "''media/logo_1a2b3c4d''" hosted_service fresh_world]
  by (simp add: sample_reference fresh_world_def)

section \<open>Format negotiation in the built URL\<close>




section \<open>The three historical reference formats\<close>

lemma split_nonempty: "split c s \<noteq> []"
  by (induction s) (auto split: list.splits)

lemma split_append_sep: "split c (a @ c # b) = split c a @ split c b"
proof (induction a)
  case Nil
  then show ?case by simp
next
  case (Cons x a)
  obtain w ws where "split c a = w # ws"
    using split_nonempty [of c a] by (cases "split c a") auto
  with Cons show ?case by simp
qed

lemma split_no_sep: "c \<notin> set b \<Longrightarrow> split c b = [b]"
  by (induction b) auto

lemma startswith_append: "startswith a sub \<Longrightarrow> startswith (a @ b) sub"
proof (induction a sub rule: startswith.induct)
  case (1 s)
  then show ?case by simp
next
  case (2 p ps)
  then show ?case by simp
next
  case (3 x xs p ps)
  then show ?case by simp
qed

lemma str_contains_append: "str_contains a sub \<Longrightarrow> str_contains (a @ b) sub"
proof (induction a)
  case Nil
  then show ?case by (cases b) simp_all
next
  case (Cons x a)
  then show ?case using startswith_append [of "x # a" sub b] by auto
qed

lemma str_contains_prepend: "str_contains b sub \<Longrightarrow> str_contains (a @ b) sub"
  by (induction a) auto

lemma splitext_abc123_png: "splitext ''abc123.png'' = (''abc123'', ''.png'')"
  by (simp add: splitext_def rfind_def splitext_loop.simps)

lemma splitext_folder_abc123: "splitext ''folder/abc123'' = (''folder/abc123'', [])"
  by (simp add: splitext_def rfind_def splitext_loop.simps)

lemma take_length_append: "take (length xs + n) (xs @ ys) = xs @ take n ys"
  by simp

lemma fst_splitext_https: "\<exists>t. fst (splitext (''https://'' @ r)) = ''https://'' @ t"
proof -
  let ?p = "''https://'' @ r"
  let ?d = "rfind ?p (CHR ''.'')"
  show ?thesis
  proof (cases "rfind ?p (CHR ''/'') < ?d \<and> splitext_loop ?p (rfind ?p (CHR ''/'') + 1) ?d")
    case True
    have "int 7 \<le> rfind ?p (CHR ''/'')"
      by (rule rfind_ge) simp_all
    with True have "8 \<le> nat ?d" by linarith
    then obtain n where "nat ?d = 8 + n"
      using le_Suc_ex by blast
    then have len: "nat ?d = length ''https://'' + n" by simp
    from True have "fst (splitext ?p) = take (nat ?d) ?p"
      by (simp add: splitext_def Let_def)
    also have "\<dots> = take (length ''https://'' + n) ?p"
      by (simp only: len)
    also have "\<dots> = ''https://'' @ take n r"
      by (rule take_length_append)
    finally show ?thesis by blast
  next
    case False
    then have "fst (splitext ?p) = ?p"
      by (auto simp: splitext_def Let_def)
    then show ?thesis by blast
  qed
qed

text \<open>
  Claim C2 names the input \<open>https://host/.../v1/folder/abc123.png\<close>. The URL branch of
  \<open>_extract_public_id\<close> is entered only when the name contains \<open>cloudinary.com\<close>; this
  one does not, so it is treated as a bare identifier with a nested path and comes back
  whole, less its extension.
\<close>

theorem literal_url_counterexample:
  "CLOUDINARY_FOLDER failing_service = Some ''folder''
   \<and> extract_public_id failing_service ''https://host/.../v1/folder/abc123.png''
       = Some ''https://host/.../v1/folder/abc123''
   \<and> extract_public_id failing_service ''https://host/.../v1/folder/abc123.png''
       \<noteq> Some ''folder/abc123''"
  by (simp add: extract_public_id_def failing_service_def folder_setting_def splitext_def
      rfind_def splitext_loop.simps)

text \<open>
  Claim C2, amended. With the folder \<open>folder\<close>, the references \<open>folder/abc123\<close> and
  \<open>abc123.png\<close> and every URL \<open>https://\<dots>/abc123.png\<close> whose part before the last
  segment contains \<open>cloudinary.com\<close> extract to \<open>folder/abc123\<close>; every name
  \<open>https://\<dots>\<close> that does not contain \<open>cloudinary.com\<close> is returned whole, less the
  extension \<open>os.path.splitext\<close> finds in it.
\<close>

theorem extract_public_id_three_formats:
  assumes folder: "CLOUDINARY_FOLDER e = Some ''folder''"
    and hosted: "str_contains rest ''cloudinary.com''"
  shows "extract_public_id e ''folder/abc123'' = Some ''folder/abc123''
       \<and> extract_public_id e (''https://'' @ rest @ ''/abc123.png'') = Some ''folder/abc123''
       \<and> extract_public_id e ''abc123.png'' = Some ''folder/abc123''
       \<and> (\<not> str_contains (''https://'' @ other) ''cloudinary.com''
            \<longrightarrow> extract_public_id e (''https://'' @ other)
                = Some (fst (splitext (''https://'' @ other))))"
proof -
  let ?url = "''https://'' @ rest @ ''/abc123.png''"
  have f: "folder_setting e = ''folder''"
    using folder by (simp add: folder_setting_def)
  have first: "extract_public_id e ''folder/abc123'' = Some ''folder/abc123''"
    by (simp add: extract_public_id_def f splitext_folder_abc123)
  have third: "extract_public_id e ''abc123.png'' = Some ''folder/abc123''"
    by (simp add: extract_public_id_def f splitext_abc123_png)
  have nonempty: "?url \<noteq> []" by simp
  have noprefix: "\<not> startswith ?url (''folder'' @ ''/'')" by simp
  have "str_contains (rest @ ''/abc123.png'') ''cloudinary.com''"
    using hosted by (rule str_contains_append)
  then have contains: "str_contains ?url ''cloudinary.com''"
    by (rule str_contains_prepend)
  have "?url = (''https://'' @ rest) @ CHR ''/'' # ''abc123.png''" by simp
  then have parts:
    "split (CHR ''/'') ?url = split (CHR ''/'') (''https://'' @ rest) @ [''abc123.png'']"
    by (simp only: split_append_sep) (simp add: split_no_sep)
  have last: "last (split (CHR ''/'') ?url) = ''abc123.png''"
    unfolding parts by simp
  have len: "length (split (CHR ''/'') ?url) \<ge> 2"
    unfolding parts using split_nonempty [of "CHR ''/''" "''https://'' @ rest"]
    by (cases "split (CHR ''/'') (''https://'' @ rest)") auto
  have second: "extract_public_id e ?url = Some ''folder/abc123''"
    unfolding extract_public_id_def Let_def f
    using nonempty noprefix contains len
    by (simp only: last splitext_abc123_png if_True if_False fst_conv simp_thms) simp
  have fourth: "extract_public_id e (''https://'' @ other)
                  = Some (fst (splitext (''https://'' @ other)))"
    if plain: "\<not> str_contains (''https://'' @ other) ''cloudinary.com''"
  proof -
    obtain t where t: "fst (splitext (''https://'' @ other)) = ''https://'' @ t"
      using fst_splitext_https by blast
    have "\<not> startswith (''https://'' @ other) (''folder'' @ ''/'')" by simp
    moreover have "CHR ''/'' \<in> set (''https://'' @ t)" by simp
    moreover have "\<not> startswith (''https://'' @ t) ''folder''" by simp
    ultimately show ?thesis
      using plain unfolding extract_public_id_def Let_def f t by simp
  qed
  from first second third fourth show ?thesis by simp
qed

theorem extract_public_id_three_formats_witness:
  "CLOUDINARY_FOLDER failing_service = Some ''folder''
   \<and> str_contains ''res.cloudinary.com/demo/image/upload/v1/folder'' ''cloudinary.com''
   \<and> extract_public_id failing_service ''folder/abc123'' = Some ''folder/abc123''
   \<and> extract_public_id failing_service
        ''https://res.cloudinary.com/demo/image/upload/v1/folder/abc123.png''
       = Some ''folder/abc123''
   \<and> extract_public_id failing_service ''abc123.png'' = Some ''folder/abc123''
   \<and> \<not> str_contains ''https://images.example.com/v1/folder/abc123.png'' ''cloudinary.com''
   \<and> extract_public_id failing_service ''https://images.example.com/v1/folder/abc123.png''
       = Some ''https://images.example.com/v1/folder/abc123''"
proof -
  have f: "CLOUDINARY_FOLDER failing_service = Some ''folder''"
    by (simp add: failing_service_def)
  have h: "str_contains ''res.cloudinary.com/demo/image/upload/v1/folder'' ''cloudinary.com''"
    by simp
  have n: "\<not> str_contains ''https://images.example.com/v1/folder/abc123.png'' ''cloudinary.com''"
    by simp
  have x: "splitext ''https://images.example.com/v1/folder/abc123.png''
             = (''https://images.example.com/v1/folder/abc123'', ''.png'')"
    by (simp add: splitext_def rfind_def splitext_loop.simps)
  from extract_public_id_three_formats
         [OF f h, of "''images.example.com/v1/folder/abc123.png''"] f h n x
  show ?thesis by simp
qed

section \<open>The upload format\<close>

lemma dict_get_dict_set: "dict_get (dict_set d k v) k' = (if k' = k then Some v else dict_get d k')"
  by (induction d k v rule: dict_set.induct) (auto simp: dict_get_def)

text \<open>
  The format \<open>_save\<close> asks for: the declared media type decides when its subtype is one
  of the five values of \<open>format_mapping\<close>, the extension decides otherwise.
\<close>

lemma upload_format_rule:
  "dict_get (upload_options e u name c) ''format'' =
     (let by_extension = dict_get format_mapping (lstrip_dot (lower (snd (splitext name))))
      in case (if is_uploaded_file c then content_type c else None) of
           None \<Rightarrow> by_extension
         | Some ct \<Rightarrow>
             if ct \<noteq> [] \<and> CHR ''/'' \<in> set ct
                \<and> last (split (CHR ''/'') ct) \<in> {''jpg'', ''png'', ''gif'', ''webp'', ''svg''}
             then Some (PStr (last (split (CHR ''/'') ct)))
             else by_extension)"
proof -
  have vals: "PStr x \<in> set (map snd format_mapping)
      \<longleftrightarrow> x \<in> {''jpg'', ''png'', ''gif'', ''webp'', ''svg''}" for x
    by (auto simp: format_mapping_def)
  have base: "dict_get [(''public_id'', a), (''resource_type'', b), (''overwrite'', c1),
      (''folder'', d1), (''use_filename'', f), (''unique_filename'', g)] ''format'' = None"
    for a b c1 d1 f g
    by (simp add: dict_get_def)
  show ?thesis
    unfolding upload_options_def Let_def vals
    by (auto simp: dict_get_dict_set base split: option.splits) (simp_all add: dict_get_def)
qed

text \<open>
  Claim C3. The claim has a declared media type \<open>image/jpeg\<close> override the extension.
  \<open>_save\<close> tests the subtype against the values of \<open>format_mapping\<close> (\<open>jpg\<close>, \<open>png\<close>,
  \<open>gif\<close>, \<open>webp\<close>, \<open>svg\<close>), not against its keys, so the subtype \<open>jpeg\<close> is not
  recognised: \<open>photo.png\<close> declared \<open>image/jpeg\<close> is uploaded as \<open>png\<close>, and \<open>photo\<close>
  declared \<open>image/jpeg\<close> is uploaded with no format at all, while \<open>photo.jpeg\<close> declared
  \<open>image/png\<close> is uploaded as \<open>png\<close>.
\<close>

theorem jpeg_media_type_does_not_override:
  "dict_get (upload_options e u ''photo.png''
       \<lparr>file_content = d, is_uploaded_file = True, content_type = Some ''image/jpeg''\<rparr>)
     ''format'' = Some (PStr ''png'')
   \<and> dict_get (upload_options e u ''photo''
       \<lparr>file_content = d, is_uploaded_file = True, content_type = Some ''image/jpeg''\<rparr>)
     ''format'' = None
   \<and> dict_get (upload_options e u ''photo.jpeg''
       \<lparr>file_content = d, is_uploaded_file = True, content_type = Some ''image/png''\<rparr>)
     ''format'' = Some (PStr ''png'')"
  by (simp add: upload_options_def Let_def splitext_def rfind_def splitext_loop.simps lower_def
      lower_char_def lstrip_dot_def dict_get_def format_mapping_def)

end
